theory Spec2Isabelle
  imports Complex_Main
begin

section \<open>Numbers, errors and arrays\<close>

text \<open>
  The terrain builders of \<^verbatim>\<open>ci_group/terrains.py\<close> are pure functions over Python
  floats, Python ints and two-dimensional numpy arrays.

  \<^item> A Python float is modelled as a real number: every arithmetic operation is exact,
    and infinities and NaN do not occur. Rounding of the binary64 operations is outside
    the model.
  \<^item> A Python int is an \<^typ>\<open>int\<close>.
  \<^item> A two-dimensional numpy array is the list of its rows (axis 0), each row the list of
    its cells (axis 1).
  \<^item> numpy refuses to allocate an array with a negative dimension and raises
    \<^verbatim>\<open>ValueError\<close>; on finite arguments this is the only exception the builders
    raise, and it is a value of the model. The limits of memory (a grid too large to
    allocate) are outside the model.
\<close>

datatype error = ValueError

type_synonym ndarray = "real list list"

text \<open>\<^verbatim>\<open>int(x)\<close> on a float truncates towards zero.\<close>

definition py_int :: "real \<Rightarrow> int" where
  "py_int x = (if 0 \<le> x then \<lfloor>x\<rfloor> else \<lceil>x\<rceil>)"

text \<open>
  \<^verbatim>\<open>np.fromfunction(np.vectorize(f, otypes=[float]), shape, dtype=float)\<close>: the index
  arrays of \<^verbatim>\<open>np.indices(shape)\<close> are passed cell by cell, the axis-0 index first,
  both as floats. With \<^verbatim>\<open>otypes\<close> given, an empty grid is returned without calling
  \<^verbatim>\<open>f\<close>.
\<close>

definition fromfunction :: "(real \<Rightarrow> real \<Rightarrow> real) \<Rightarrow> int \<times> int \<Rightarrow> error + ndarray" where
  "fromfunction f shp =
     (if fst shp < 0 \<or> snd shp < 0 then Inl ValueError
      else Inr (map (\<lambda>i. map (\<lambda>j. f (real i) (real j)) [0..<nat (snd shp)])
                    [0..<nat (fst shp)]))"

text \<open>\<^verbatim>\<open>np.zeros(shape)\<close> and \<^verbatim>\<open>np.zeros_like(a)\<close>.\<close>

definition zeros :: "int \<times> int \<Rightarrow> error + ndarray" where
  "zeros shp =
     (if fst shp < 0 \<or> snd shp < 0 then Inl ValueError
      else Inr (replicate (nat (fst shp)) (replicate (nat (snd shp)) 0)))"

definition zeros_like :: "ndarray \<Rightarrow> ndarray" where
  "zeros_like a = map (map (\<lambda>v. 0)) a"

text \<open>\<^verbatim>\<open>a *= k\<close>, \<^verbatim>\<open>k * a\<close>, \<^verbatim>\<open>a + b\<close> and \<^verbatim>\<open>a / k\<close>, cell by cell.\<close>

definition imul :: "ndarray \<Rightarrow> real \<Rightarrow> ndarray" where
  "imul a k = map (map (\<lambda>v. v * k)) a"

definition rmul :: "real \<Rightarrow> ndarray \<Rightarrow> ndarray" where
  "rmul k a = map (map (\<lambda>v. k * v)) a"

definition add_arrays :: "ndarray \<Rightarrow> ndarray \<Rightarrow> ndarray" where
  "add_arrays a b = map2 (map2 (+)) a b"

definition div_array :: "ndarray \<Rightarrow> real \<Rightarrow> ndarray" where
  "div_array a k = map (map (\<lambda>v. v / k)) a"

text \<open>
  \<^verbatim>\<open>a[:, :stop] = 0\<close>: a slice bound below zero counts from the end of the row, one
  beyond the end of the row stops at the end.
\<close>

definition slice_stop :: "int \<Rightarrow> nat \<Rightarrow> nat" where
  "slice_stop stop n = (if stop < 0 then nat (int n + stop) else min (nat stop) n)"

definition zero_columns :: "ndarray \<Rightarrow> int \<Rightarrow> ndarray" where
  "zero_columns a stop =
     map (\<lambda>row. replicate (slice_stop stop (length row)) 0 @ drop (slice_stop stop (length row)) row) a"

text \<open>\<^verbatim>\<open>a.shape\<close>, where the array has a row to read the second axis from.\<close>

definition shape :: "ndarray \<Rightarrow> int \<times> int" where
  "shape a = (case a of [] \<Rightarrow> (0, 0) | row # _ \<Rightarrow> (int (length a), int (length row)))"


section \<open>Scene records\<close>

text \<open>
  Modelled from the spec: the classes \<^verbatim>\<open>Terrain\<close>, \<^verbatim>\<open>Pose\<close>, \<^verbatim>\<open>GeometryPlane\<close>,
  \<^verbatim>\<open>GeometryHeightmap\<close>, \<^verbatim>\<open>Color\<close>, \<^verbatim>\<open>MapType\<close> and \<^verbatim>\<open>Checker\<close> are declared in
  modules of the repository that are not among its source files here; only the calls of
  their constructors are. The spec (sections 3 and 6) gives them as records that this layer
  fills and never inspects: a terrain is a list of static geometry entries, and an entry
  pairs a placement, a plane or a heightmap, a mass, a thickness and an optional texture.
  Each constructor is modelled with the arguments the builders pass, in the order of the
  source's keywords; an argument the builder leaves to the constructor's default is
  \<open>None\<close>.
\<close>

type_synonym vector2 = "real \<times> real"

type_synonym vector3 = "real \<times> real \<times> real"

datatype color = Color int int int int

datatype map_type = MAP2D

datatype texture = Checker (primary_color: color) (secondary_color: color) (tex_map_type: map_type)

datatype pose = Pose "vector3 option"

datatype geometry =
    GeometryPlane (pose: pose) (mass: real) (plane_size: vector2)
  | GeometryHeightmap (pose: pose) (mass: real) (hm_size: vector3) (base_thickness: real)
      (heights: ndarray) (texture: "texture option")

record terrain =
  static_geometry :: "geometry list"

text \<open>The vertical extent a heightmap geometry declares: the z component of its size.\<close>

definition extent_z :: "geometry \<Rightarrow> real" where
  "extent_z g = snd (snd (hm_size g))"

section \<open>The noise function\<close>

text \<open>
  \<^verbatim>\<open>pnoise2(x, y, octaves)\<close> comes from the external package \<^verbatim>\<open>noise\<close>. The
  builders take it as an argument: a function of its three arguments, which is what a
  generator with a fixed table and no seed is.
\<close>

type_synonym noise = "real \<Rightarrow> real \<Rightarrow> int \<Rightarrow> real"

section \<open>Heightmap primitives\<close>

definition OCTAVE :: int where
  "OCTAVE = 10"

definition C1 :: real where
  "C1 = 4.0"

definition rugged_heightmap :: "noise \<Rightarrow> real \<times> real \<Rightarrow> int \<times> int \<Rightarrow> real \<Rightarrow> error + ndarray" where
  "rugged_heightmap pnoise2 sz num_edges density =
     fromfunction
       (\<lambda>y x. pnoise2 (x / real_of_int (fst num_edges) * C1 * fst sz * density)
                       (y / real_of_int (snd num_edges) * C1 * snd sz * density)
                       OCTAVE)
       num_edges"

definition bowl_heightmap :: "int \<times> int \<Rightarrow> error + ndarray" where
  "bowl_heightmap num_edges =
     fromfunction
       (\<lambda>y x.
          if sqrt ((x / real_of_int (fst num_edges) * 2.0 - 1.0)\<^sup>2
                   + (y / real_of_int (snd num_edges) * 2.0 - 1.0)\<^sup>2) \<le> 1.0
          then (x / real_of_int (fst num_edges) * 2.0 - 1.0)\<^sup>2
               + (y / real_of_int (snd num_edges) * 2.0 - 1.0)\<^sup>2
          else 0.0)
       num_edges"

section \<open>Terrain builders\<close>

text \<open>
  Every argument is explicit: where the Python caller leaves one out, the defaults are
  \<^verbatim>\<open>size = (20.0, 20.0)\<close> for \<open>flat\<close>, and \<^verbatim>\<open>ruggedness = 0.1\<close> and
  \<^verbatim>\<open>granularity_multiplier = 1.0\<close> for the heightmap builders (\<open>crater\<close> has no default
  for its two weights). An array that the source updates in place gets a new name at each
  update (\<open>heights0\<close>, \<open>heights1\<close>, \<open>heights2\<close>). A builder raises where the array
  constructor it calls first raises.
\<close>

definition flat :: "vector2 \<Rightarrow> terrain" where
  "flat sz = \<lparr>static_geometry = [GeometryPlane (Pose None) 0.0 sz]\<rparr>"

definition flat_rugged :: "noise \<Rightarrow> real \<times> real \<Rightarrow> real \<Rightarrow> real \<Rightarrow> error + terrain" where
  "flat_rugged pnoise2 sz ruggedness granularity_multiplier =
     (let NUM_EDGES = 100;
          num_edges = (py_int (NUM_EDGES * fst sz * granularity_multiplier),
                       py_int (NUM_EDGES * snd sz * granularity_multiplier))
      in case rugged_heightmap pnoise2 sz num_edges 1.0 of
           Inl e \<Rightarrow> Inl e
         | Inr heights0 \<Rightarrow>
             let max_height = ruggedness;
                 heights1 = imul heights0 ruggedness
             in Inr \<lparr>static_geometry =
                      [GeometryHeightmap (Pose None) 0.0 (fst sz, snd sz, max_height) 0.1
                         heights1 None]\<rparr>)"

definition mixed_terrain :: "noise \<Rightarrow> real \<times> real \<Rightarrow> real \<Rightarrow> real \<Rightarrow> error + terrain" where
  "mixed_terrain pnoise2 sz ruggedness granularity_multiplier =
     (let NUM_EDGES = 100;
          num_edges = (py_int (NUM_EDGES * fst sz * granularity_multiplier),
                       py_int (NUM_EDGES * snd sz * granularity_multiplier))
      in case rugged_heightmap pnoise2 sz num_edges 1.0 of
           Inl e \<Rightarrow> Inl e
         | Inr rugged_heights0 \<Rightarrow>
             let flat_heights = zeros_like rugged_heights0;
                 max_height = ruggedness;
                 rugged_heights = imul rugged_heights0 ruggedness
             in Inr \<lparr>static_geometry =
                      [GeometryHeightmap (Pose (Some (0, 0, 0))) 0.0
                         (fst sz, snd sz, max_height) 0.1 flat_heights None,
                       GeometryHeightmap (Pose (Some (2 * fst sz, 0, 0))) 0.0
                         (fst sz, snd sz, max_height) 0.1 flat_heights
                         (Some (Checker (Color 170 170 180 255) (Color 150 150 150 255) MAP2D)),
                       GeometryHeightmap (Pose (Some (4 * fst sz, 0, 0))) 0.0
                         (fst sz, snd sz, max_height) 0.1 rugged_heights None]\<rparr>)"

definition mixed_flat_rugged :: "noise \<Rightarrow> real \<times> real \<Rightarrow> real \<Rightarrow> real \<Rightarrow> error + terrain" where
  "mixed_flat_rugged pnoise2 sz ruggedness granularity_multiplier =
     (let NUM_EDGES = 100;
          num_edges = (py_int (NUM_EDGES * fst sz * granularity_multiplier),
                       py_int (NUM_EDGES * snd sz * granularity_multiplier))
      in case rugged_heightmap pnoise2 sz num_edges 1.0 of
           Inl e \<Rightarrow> Inl e
         | Inr heights0 \<Rightarrow>
             let heights1 = imul heights0 ruggedness;
                 midpoint = fst num_edges div 2;
                 heights2 = zero_columns heights1 midpoint
             in Inr \<lparr>static_geometry =
                      [GeometryHeightmap (Pose None) 0.0 (fst sz, snd sz, ruggedness) 0.1
                         heights2 None]\<rparr>)"

definition mixed_flat_rugged_one_thirds ::
    "noise \<Rightarrow> real \<times> real \<Rightarrow> real \<Rightarrow> real \<Rightarrow> error + terrain" where
  "mixed_flat_rugged_one_thirds pnoise2 sz ruggedness granularity_multiplier =
     (let NUM_EDGES = 100;
          num_edges = (py_int (NUM_EDGES * fst sz * granularity_multiplier),
                       py_int (NUM_EDGES * snd sz * granularity_multiplier))
      in case rugged_heightmap pnoise2 sz num_edges 1.0 of
           Inl e \<Rightarrow> Inl e
         | Inr heights0 \<Rightarrow>
             let heights1 = imul heights0 ruggedness;
                 rugged_start = fst num_edges * 2 div 3;
                 heights2 = zero_columns heights1 rugged_start
             in Inr \<lparr>static_geometry =
                      [GeometryHeightmap (Pose None) 0.0 (fst sz, snd sz, ruggedness) 0.1
                         heights2 None]\<rparr>)"

definition crater :: "noise \<Rightarrow> real \<times> real \<Rightarrow> real \<Rightarrow> real \<Rightarrow> real \<Rightarrow> error + terrain" where
  "crater pnoise2 sz ruggedness curviness granularity_multiplier =
     (let NUM_EDGES = 100;
          num_edges = (py_int (NUM_EDGES * fst sz * granularity_multiplier),
                       py_int (NUM_EDGES * snd sz * granularity_multiplier))
      in case rugged_heightmap pnoise2 sz num_edges 1.5 of
           Inl e \<Rightarrow> Inl e
         | Inr rugged \<Rightarrow>
            (case bowl_heightmap num_edges of
               Inl e \<Rightarrow> Inl e
             | Inr bowl \<Rightarrow>
                (let max_height0 = ruggedness + curviness
                 in case (if max_height0 = 0.0
                          then (case zeros num_edges of
                                  Inl e \<Rightarrow> Inl e
                                | Inr heightmap \<Rightarrow> Inr (heightmap, 1.0))
                          else Inr (div_array
                                      (add_arrays (rmul ruggedness rugged) (rmul curviness bowl))
                                      (ruggedness + curviness),
                                    max_height0)) of
                      Inl e \<Rightarrow> Inl e
                    | Inr (heightmap, max_height) \<Rightarrow>
                        Inr \<lparr>static_geometry =
                              [GeometryHeightmap (Pose None) 0.0 (fst sz, snd sz, max_height)
                                 (0.1 + ruggedness) heightmap None]\<rparr>)))"

section \<open>Sample inputs\<close>

text \<open>
  A concrete function of the noise function's type, for evaluating the builders on small
  grids. It is not the library's noise; no theorem about the builders depends on it.
\<close>

definition sample_noise :: noise where
  "sample_noise x y octaves = x + y * real_of_int octaves"



section \<open>Arrays built by \<^verbatim>\<open>fromfunction\<close>\<close>

lemma fromfunction_cases:
  "fromfunction f shp = Inr a \<longleftrightarrow>
     0 \<le> fst shp \<and> 0 \<le> snd shp \<and>
     a = map (\<lambda>i. map (\<lambda>j. f (real i) (real j)) [0..<nat (snd shp)]) [0..<nat (fst shp)]"
  by (auto simp: fromfunction_def)

lemma fromfunction_error:
  "fromfunction f shp = Inl e \<longleftrightarrow> (fst shp < 0 \<or> snd shp < 0)"
  by (cases e) (auto simp: fromfunction_def)

lemma fromfunction_length:
  assumes "fromfunction f shp = Inr a"
  shows "length a = nat (fst shp)"
  using assms by (simp add: fromfunction_cases)

lemma fromfunction_row_length:
  assumes "fromfunction f shp = Inr a" and "row \<in> set a"
  shows "length row = nat (snd shp)"
  using assms by (auto simp: fromfunction_cases)

lemma fromfunction_nth:
  assumes "fromfunction f shp = Inr a" and "i < nat (fst shp)" and "j < nat (snd shp)"
  shows "a ! i ! j = f (real i) (real j)"
  using assms by (simp add: fromfunction_cases)

lemma fromfunction_shape:
  assumes "fromfunction f shp = Inr a" and "0 < fst shp"
  shows "shape a = shp"
proof -
  from assms have a: "a = map (\<lambda>i. map (\<lambda>j. f (real i) (real j)) [0..<nat (snd shp)]) [0..<nat (fst shp)]"
    and nn: "0 \<le> snd shp"
    by (simp_all add: fromfunction_cases)
  from assms(2) obtain k where k: "nat (fst shp) = Suc k"
    by (cases "nat (fst shp)") auto
  have "[0..<nat (fst shp)] = 0 # [1..<Suc k]"
    unfolding k by (simp add: upt_rec)
  with a obtain rest where "a = map (\<lambda>j. f 0 (real j)) [0..<nat (snd shp)] # rest"
    by auto
  hence "shape a = (int (length a), int (nat (snd shp)))"
    by (simp add: shape_def)
  also have "length a = nat (fst shp)" using a by simp
  finally show ?thesis using assms(2) nn by (simp add: prod_eq_iff)
qed


lemma rugged_heightmap_dims:
  assumes "rugged_heightmap pnoise2 sz num_edges density = Inr h"
  shows "0 \<le> fst num_edges" and "0 \<le> snd num_edges"
    and "length h = nat (fst num_edges)"
    and "\<And>i. i < nat (fst num_edges) \<Longrightarrow> length (h ! i) = nat (snd num_edges)"
  using assms by (simp_all add: rugged_heightmap_def fromfunction_cases)

lemma rugged_heightmap_error:
  "rugged_heightmap pnoise2 sz num_edges density = Inl e \<longleftrightarrow>
     (fst num_edges < 0 \<or> snd num_edges < 0)"
  by (simp add: rugged_heightmap_def fromfunction_error)



lemma bowl_heightmap_dims:
  assumes "bowl_heightmap num_edges = Inr b"
  shows "length b = nat (fst num_edges)"
    and "\<And>i. i < nat (fst num_edges) \<Longrightarrow> length (b ! i) = nat (snd num_edges)"
  using assms by (simp_all add: bowl_heightmap_def fromfunction_cases)

lemma bowl_heightmap_error:
  "bowl_heightmap num_edges = Inl e \<longleftrightarrow> (fst num_edges < 0 \<or> snd num_edges < 0)"
  by (simp add: bowl_heightmap_def fromfunction_error)



section \<open>Cells and dimensions of the array operations\<close>

lemma imul_length: "length (imul a k) = length a"
  by (simp add: imul_def)

lemma imul_row_length: "i < length a \<Longrightarrow> length (imul a k ! i) = length (a ! i)"
  by (simp add: imul_def)

lemma imul_nth: "i < length a \<Longrightarrow> j < length (a ! i) \<Longrightarrow> imul a k ! i ! j = a ! i ! j * k"
  by (simp add: imul_def)



lemma rmul_length: "length (rmul k a) = length a"
  by (simp add: rmul_def)

lemma rmul_row_length: "i < length a \<Longrightarrow> length (rmul k a ! i) = length (a ! i)"
  by (simp add: rmul_def)

lemma rmul_nth: "i < length a \<Longrightarrow> j < length (a ! i) \<Longrightarrow> rmul k a ! i ! j = k * a ! i ! j"
  by (simp add: rmul_def)


lemma div_array_length: "length (div_array a k) = length a"
  by (simp add: div_array_def)

lemma div_array_row_length: "i < length a \<Longrightarrow> length (div_array a k ! i) = length (a ! i)"
  by (simp add: div_array_def)

lemma div_array_nth:
  "i < length a \<Longrightarrow> j < length (a ! i) \<Longrightarrow> div_array a k ! i ! j = a ! i ! j / k"
  by (simp add: div_array_def)


lemma add_arrays_length: "length (add_arrays a b) = min (length a) (length b)"
  by (simp add: add_arrays_def)

lemma add_arrays_row_length:
  "i < length a \<Longrightarrow> i < length b \<Longrightarrow>
   length (add_arrays a b ! i) = min (length (a ! i)) (length (b ! i))"
  by (simp add: add_arrays_def)

lemma add_arrays_nth:
  "i < length a \<Longrightarrow> i < length b \<Longrightarrow> j < length (a ! i) \<Longrightarrow> j < length (b ! i) \<Longrightarrow>
   add_arrays a b ! i ! j = a ! i ! j + b ! i ! j"
  by (simp add: add_arrays_def)


lemma slice_stop_le: "slice_stop stop n \<le> n"
  unfolding slice_stop_def by (cases "stop < 0") simp_all

lemma zero_columns_length: "length (zero_columns a stop) = length a"
  by (simp add: zero_columns_def)

lemma zero_columns_row_length:
  "i < length a \<Longrightarrow> length (zero_columns a stop ! i) = length (a ! i)"
  using slice_stop_le [of stop "length (a ! i)"] by (simp add: zero_columns_def)

lemma zero_columns_nth:
  assumes "i < length a" and "j < length (a ! i)" and "0 \<le> stop"
  shows "zero_columns a stop ! i ! j = (if int j < stop then 0 else a ! i ! j)"
proof -
  let ?s = "slice_stop stop (length (a ! i))"
  have s: "?s = min (nat stop) (length (a ! i))"
    using assms(3) by (simp add: slice_stop_def)
  have row: "zero_columns a stop ! i = replicate ?s 0 @ drop ?s (a ! i)"
    using assms(1) by (simp add: zero_columns_def)
  show ?thesis
  proof (cases "int j < stop")
    case True
    hence "j < ?s" using assms(2) unfolding s by linarith
    thus ?thesis using True row by (simp add: nth_append)
  next
    case False
    hence "\<not> j < ?s" and "?s \<le> j" unfolding s by linarith+
    thus ?thesis using False row assms(2) by (simp add: nth_append)
  qed
qed



lemma zeros_like_length: "length (zeros_like a) = length a"
  by (simp add: zeros_like_def)



section \<open>The derived resolution\<close>


lemma py_int_nonneg: "0 \<le> x \<Longrightarrow> 0 \<le> py_int x"
  by (simp add: py_int_def)

lemma num_edges_nonneg:
  assumes "0 \<le> s" and "0 \<le> g"
  shows "0 \<le> py_int (100 * s * g)"
  using assms by (intro py_int_nonneg mult_nonneg_nonneg) simp_all

section \<open>What a builder returns\<close>

lemma flat_rugged_Inr:
  assumes "flat_rugged pnoise2 sz r g = Inr t"
  shows "\<exists>rugged. rugged_heightmap pnoise2 sz
                     (py_int (100 * fst sz * g), py_int (100 * snd sz * g)) 1.0 = Inr rugged
           \<and> t = \<lparr>static_geometry =
                    [GeometryHeightmap (Pose None) 0 (fst sz, snd sz, r) 0.1 (imul rugged r) None]\<rparr>"
  using assms by (auto simp: flat_rugged_def Let_def split: sum.splits)

lemma mixed_terrain_Inr:
  assumes "mixed_terrain pnoise2 sz r g = Inr t"
  shows "\<exists>rugged. rugged_heightmap pnoise2 sz
                     (py_int (100 * fst sz * g), py_int (100 * snd sz * g)) 1.0 = Inr rugged
           \<and> t = \<lparr>static_geometry =
                    [GeometryHeightmap (Pose (Some (0, 0, 0))) 0 (fst sz, snd sz, r) 0.1
                       (zeros_like rugged) None,
                     GeometryHeightmap (Pose (Some (2 * fst sz, 0, 0))) 0 (fst sz, snd sz, r) 0.1
                       (zeros_like rugged)
                       (Some (Checker (Color 170 170 180 255) (Color 150 150 150 255) MAP2D)),
                     GeometryHeightmap (Pose (Some (4 * fst sz, 0, 0))) 0 (fst sz, snd sz, r) 0.1
                       (imul rugged r) None]\<rparr>"
  using assms by (auto simp: mixed_terrain_def Let_def split: sum.splits)

lemma mixed_flat_rugged_Inr:
  assumes "mixed_flat_rugged pnoise2 sz r g = Inr t"
  shows "\<exists>rugged. rugged_heightmap pnoise2 sz
                     (py_int (100 * fst sz * g), py_int (100 * snd sz * g)) 1.0 = Inr rugged
           \<and> t = \<lparr>static_geometry =
                    [GeometryHeightmap (Pose None) 0 (fst sz, snd sz, r) 0.1
                       (zero_columns (imul rugged r) (py_int (100 * fst sz * g) div 2)) None]\<rparr>"
  using assms by (auto simp: mixed_flat_rugged_def Let_def split: sum.splits)

lemma mixed_flat_rugged_one_thirds_Inr:
  assumes "mixed_flat_rugged_one_thirds pnoise2 sz r g = Inr t"
  shows "\<exists>rugged. rugged_heightmap pnoise2 sz
                     (py_int (100 * fst sz * g), py_int (100 * snd sz * g)) 1.0 = Inr rugged
           \<and> t = \<lparr>static_geometry =
                    [GeometryHeightmap (Pose None) 0 (fst sz, snd sz, r) 0.1
                       (zero_columns (imul rugged r) (py_int (100 * fst sz * g) * 2 div 3)) None]\<rparr>"
  using assms by (auto simp: mixed_flat_rugged_one_thirds_def Let_def split: sum.splits)

lemma crater_Inr:
  assumes "crater pnoise2 sz r c g = Inr t"
  shows "\<exists>rugged bowl hs mh.
           rugged_heightmap pnoise2 sz
             (py_int (100 * fst sz * g), py_int (100 * snd sz * g)) 1.5 = Inr rugged
           \<and> bowl_heightmap (py_int (100 * fst sz * g), py_int (100 * snd sz * g)) = Inr bowl
           \<and> t = \<lparr>static_geometry =
                    [GeometryHeightmap (Pose None) 0 (fst sz, snd sz, mh) (0.1 + r) hs None]\<rparr>
           \<and> (if r + c = 0
               then mh = 1
                    \<and> hs = replicate (nat (py_int (100 * fst sz * g)))
                             (replicate (nat (py_int (100 * snd sz * g))) 0)
               else mh = r + c
                    \<and> hs = div_array (add_arrays (rmul r rugged) (rmul c bowl)) (r + c))"
  using assms
  by (auto simp: crater_def Let_def zeros_def split: sum.splits if_splits)



lemma crater_blend:
  assumes rg: "rugged_heightmap pnoise2 sz (py_int (100 * fst sz * g), py_int (100 * snd sz * g)) 1.5
                 = Inr rugged"
    and bw: "bowl_heightmap (py_int (100 * fst sz * g), py_int (100 * snd sz * g)) = Inr bowl"
    and nz: "r + c \<noteq> 0"
  shows "\<exists>hs. crater pnoise2 sz r c g =
                Inr \<lparr>static_geometry =
                      [GeometryHeightmap (Pose None) 0 (fst sz, snd sz, r + c) (0.1 + r)
                         hs None]\<rparr>
             \<and> length hs = length rugged
             \<and> length bowl = length rugged
             \<and> (\<forall>row < length rugged.
                   length (hs ! row) = length (rugged ! row)
                   \<and> length (bowl ! row) = length (rugged ! row)
                   \<and> (\<forall>col < length (rugged ! row).
                         hs ! row ! col =
                           (r * rugged ! row ! col + c * bowl ! row ! col) / (r + c)))"
proof -
  let ?ne = "(py_int (100 * fst sz * g), py_int (100 * snd sz * g))"
  let ?hs = "div_array (add_arrays (rmul r rugged) (rmul c bowl)) (r + c)"
  have t: "crater pnoise2 sz r c g =
             Inr \<lparr>static_geometry =
                   [GeometryHeightmap (Pose None) 0 (fst sz, snd sz, r + c) (0.1 + r)
                      ?hs None]\<rparr>"
    using rg bw nz by (simp add: crater_def Let_def)
  have lr: "length rugged = nat (fst ?ne)" and lb: "length bowl = nat (fst ?ne)"
    using rugged_heightmap_dims(3) [OF rg] bowl_heightmap_dims(1) [OF bw] by simp_all
  have rr: "length (rugged ! row) = nat (snd ?ne)" and rb: "length (bowl ! row) = nat (snd ?ne)"
    if "row < length rugged" for row
    using rugged_heightmap_dims(4) [OF rg] bowl_heightmap_dims(2) [OF bw] that lr by simp_all
  have l: "length ?hs = length rugged"
    by (simp add: div_array_length add_arrays_length rmul_length lr lb)
  have c: "length (?hs ! row) = length (rugged ! row)
      \<and> length (bowl ! row) = length (rugged ! row)
      \<and> (\<forall>col < length (rugged ! row).
            ?hs ! row ! col = (r * rugged ! row ! col + c * bowl ! row ! col) / (r + c))"
    if "row < length rugged" for row
    using that rr [OF that] rb [OF that] lr lb
    by (simp add: div_array_length div_array_row_length div_array_nth
                  add_arrays_length add_arrays_row_length add_arrays_nth
                  rmul_length rmul_row_length rmul_nth)
  from t l c lr lb show ?thesis by auto
qed

section \<open>Bounds on the cells\<close>












section \<open>The builders on small grids\<close>

lemma sample_resolution:
  "py_int (100 * fst (1 / 50 :: real, 3 / 100 :: real) * 1) = 2"
  "py_int (100 * snd (1 / 50 :: real, 3 / 100 :: real) * 1) = 3"
  by (simp_all add: py_int_def)

lemma sample_rugged:
  "rugged_heightmap sample_noise (1 / 50, 3 / 100) (2, 3) 1.0
     = Inr [[0, 1 / 25, 2 / 25], [2 / 5, 11 / 25, 12 / 25]]"
  by (simp add: rugged_heightmap_def fromfunction_def sample_noise_def C1_def OCTAVE_def upt_rec)


lemma sample_rugged_crater:
  "rugged_heightmap sample_noise (1 / 50, 1 / 50) (2, 2) 1.5 = Inr [[0, 3 / 50], [3 / 5, 33 / 50]]"
  by (simp add: rugged_heightmap_def fromfunction_def sample_noise_def C1_def OCTAVE_def upt_rec)

lemma sample_bowl:
  "bowl_heightmap (2, 2) = Inr [[0, 1], [1, 0]]"
  by (simp add: bowl_heightmap_def fromfunction_def upt_rec)

lemma sample_mixed_terrain:
  "mixed_terrain sample_noise (1 / 50, 3 / 100) (1 / 2) 1
     = Inr \<lparr>static_geometry =
             [GeometryHeightmap (Pose (Some (0, 0, 0))) 0 (1 / 50, 3 / 100, 1 / 2) (1 / 10)
                [[0, 0, 0], [0, 0, 0]] None,
              GeometryHeightmap (Pose (Some (1 / 25, 0, 0))) 0 (1 / 50, 3 / 100, 1 / 2) (1 / 10)
                [[0, 0, 0], [0, 0, 0]]
                (Some (Checker (Color 170 170 180 255) (Color 150 150 150 255) MAP2D)),
              GeometryHeightmap (Pose (Some (2 / 25, 0, 0))) 0 (1 / 50, 3 / 100, 1 / 2) (1 / 10)
                [[0, 1 / 50, 1 / 25], [1 / 5, 11 / 50, 6 / 25]] None]\<rparr>"
  using sample_rugged
  by (simp add: mixed_terrain_def Let_def py_int_def imul_def zeros_like_def)




section \<open>The noise primitive\<close>

text \<open>
  Claim C1. For a resolution \<open>(nx, ny)\<close> with both axes positive, every world size and
  every density, \<open>rugged_heightmap\<close> returns a grid of shape \<open>(nx, ny)\<close> whose cell at
  \<open>(row, col)\<close> is \<open>pnoise2\<close> with octave count 10 at the coordinates
  \<open>col / nx * 4.0 * sx * density\<close> and \<open>row / ny * 4.0 * sy * density\<close>.
\<close>

theorem rugged_heightmap_grid:
  assumes "0 < nx" and "0 < ny"
  shows "\<exists>h. rugged_heightmap pnoise2 (sx, sy) (nx, ny) density = Inr h
           \<and> shape h = (nx, ny)
           \<and> length h = nat nx
           \<and> (\<forall>r \<in> set h. length r = nat ny)
           \<and> (\<forall>row < nat nx. \<forall>col < nat ny.
                 h ! row ! col =
                   pnoise2 (real col / real_of_int nx * 4.0 * sx * density)
                           (real row / real_of_int ny * 4.0 * sy * density) 10)"
proof -
  let ?f = "\<lambda>y x. pnoise2 (x / real_of_int nx * C1 * sx * density)
                          (y / real_of_int ny * C1 * sy * density) OCTAVE"
  obtain h where h: "fromfunction ?f (nx, ny) = Inr h"
    using assms by (simp add: fromfunction_def)
  have "rugged_heightmap pnoise2 (sx, sy) (nx, ny) density = Inr h"
    using h by (simp add: rugged_heightmap_def)
  moreover have "shape h = (nx, ny)"
    using fromfunction_shape [OF h] assms by simp
  moreover have "length h = nat nx"
    using fromfunction_length [OF h] by simp
  moreover have "\<forall>r \<in> set h. length r = nat ny"
    using fromfunction_row_length [OF h] by simp
  moreover have "\<forall>row < nat nx. \<forall>col < nat ny.
      h ! row ! col = pnoise2 (real col / real_of_int nx * 4.0 * sx * density)
                              (real row / real_of_int ny * 4.0 * sy * density) 10"
    using fromfunction_nth [OF h] by (simp add: C1_def OCTAVE_def)
  ultimately show ?thesis by blast
qed

theorem rugged_heightmap_grid_witness:
  "(0::int) < 2 \<and> (0::int) < 3
   \<and> rugged_heightmap sample_noise (1, 2) (2, 3) (1 / 2)
       = Inr [[0, 1, 2], [40 / 3, 43 / 3, 46 / 3]]
   \<and> shape [[0, 1, 2], [40 / 3, 43 / 3, 46 / 3 :: real]] = (2, 3)
   \<and> [[0, 1, 2], [40 / 3, 43 / 3, 46 / 3 :: real]] ! 1 ! 2
       = sample_noise (2 / 2 * 4.0 * 1 * (1 / 2)) (1 / 3 * 4.0 * 2 * (1 / 2)) 10"
proof -
  have e: "rugged_heightmap sample_noise (1, 2) (2, 3) (1 / 2)
             = Inr [[0, 1, 2], [40 / 3, 43 / 3, 46 / 3]]"
    by (simp add: rugged_heightmap_def fromfunction_def sample_noise_def C1_def OCTAVE_def upt_rec)
  have p: "(0::int) < 2" "(0::int) < 3" by simp_all
  from rugged_heightmap_grid [OF p, of sample_noise 1 2 "1 / 2"] e
  show ?thesis by (auto simp: sample_noise_def)
qed

section \<open>The bowl primitive\<close>



section \<open>Heights and the declared vertical extent\<close>




section \<open>The rugged plane\<close>

text \<open>
  Claim C4. For every size, ruggedness \<open>r\<close> and granularity multiplier, the heights of
  \<open>flat_rugged\<close> are, cell by cell, \<open>r\<close> times the grid \<open>rugged_heightmap\<close> returns for the
  derived resolution at density 1.0, and the one heightmap geometry returned declares the
  vertical extent \<open>r\<close>. Where \<open>rugged_heightmap\<close> raises, so does \<open>flat_rugged\<close>.
\<close>

theorem flat_rugged_scales_rugged_heightmap:
  "case rugged_heightmap pnoise2 sz (py_int (100 * fst sz * g), py_int (100 * snd sz * g)) 1.0 of
     Inl e \<Rightarrow> flat_rugged pnoise2 sz r g = Inl e
   | Inr rugged \<Rightarrow>
       (\<exists>hs. flat_rugged pnoise2 sz r g =
                Inr \<lparr>static_geometry =
                      [GeometryHeightmap (Pose None) 0 (fst sz, snd sz, r) 0.1 hs None]\<rparr>
             \<and> extent_z (GeometryHeightmap (Pose None) 0 (fst sz, snd sz, r) 0.1 hs None) = r
             \<and> length hs = length rugged
             \<and> (\<forall>row < length rugged.
                   length (hs ! row) = length (rugged ! row)
                   \<and> (\<forall>col < length (rugged ! row). hs ! row ! col = r * rugged ! row ! col)))"
proof (cases "rugged_heightmap pnoise2 sz (py_int (100 * fst sz * g), py_int (100 * snd sz * g)) 1.0")
  case (Inl e)
  thus ?thesis by (simp add: flat_rugged_def)
next
  case (Inr rugged)
  have "flat_rugged pnoise2 sz r g =
          Inr \<lparr>static_geometry =
                [GeometryHeightmap (Pose None) 0 (fst sz, snd sz, r) 0.1 (imul rugged r) None]\<rparr>"
    using Inr by (simp add: flat_rugged_def)
  moreover have "\<forall>row < length rugged.
      length (imul rugged r ! row) = length (rugged ! row)
      \<and> (\<forall>col < length (rugged ! row). imul rugged r ! row ! col = r * rugged ! row ! col)"
    by (simp add: imul_row_length imul_nth mult.commute)
  ultimately show ?thesis
    using Inr by (auto simp: extent_z_def imul_length)
qed

theorem flat_rugged_scales_rugged_heightmap_witness:
  "rugged_heightmap sample_noise (1 / 50, 3 / 100) (2, 3) 1.0
     = Inr [[0, 1 / 25, 2 / 25], [2 / 5, 11 / 25, 12 / 25]]
   \<and> flat_rugged sample_noise (1 / 50, 3 / 100) (1 / 2) 1
     = Inr \<lparr>static_geometry =
             [GeometryHeightmap (Pose None) 0 (1 / 50, 3 / 100, 1 / 2) 0.1
                [[0, 1 / 50, 1 / 25], [1 / 5, 11 / 50, 6 / 25]] None]\<rparr>"
  using flat_rugged_scales_rugged_heightmap [of sample_noise "(1 / 50, 3 / 100)" "1 / 2" 1]
    sample_rugged
  by (simp add: flat_rugged_def py_int_def imul_def)

section \<open>Half flat, half rugged\<close>

text \<open>
  Claim C5. In the heights of \<open>mixed_flat_rugged\<close>, a cell whose column index is below
  \<open>num_edges[0] // 2\<close> is 0.0, and every other cell is \<open>r\<close> times the cell of
  \<open>rugged_heightmap\<close> (density 1.0) at the same place: the transition at the midpoint
  column is sharp.
\<close>

theorem mixed_flat_rugged_cells:
  "case rugged_heightmap pnoise2 sz (py_int (100 * fst sz * g), py_int (100 * snd sz * g)) 1.0 of
     Inl e \<Rightarrow> mixed_flat_rugged pnoise2 sz r g = Inl e
   | Inr rugged \<Rightarrow>
       (\<exists>hs. mixed_flat_rugged pnoise2 sz r g =
                Inr \<lparr>static_geometry =
                      [GeometryHeightmap (Pose None) 0 (fst sz, snd sz, r) 0.1 hs None]\<rparr>
             \<and> length hs = length rugged
             \<and> (\<forall>row < length rugged.
                   length (hs ! row) = length (rugged ! row)
                   \<and> (\<forall>col < length (rugged ! row).
                         hs ! row ! col =
                           (if int col < py_int (100 * fst sz * g) div 2 then 0.0
                            else r * rugged ! row ! col))))"
proof (cases "rugged_heightmap pnoise2 sz (py_int (100 * fst sz * g), py_int (100 * snd sz * g)) 1.0")
  case (Inl e)
  thus ?thesis by (simp add: mixed_flat_rugged_def)
next
  case (Inr rugged)
  let ?mid = "py_int (100 * fst sz * g) div 2"
  let ?hs = "zero_columns (imul rugged r) ?mid"
  have mid: "0 \<le> ?mid"
    using rugged_heightmap_dims(1) [OF Inr] by simp
  have t: "mixed_flat_rugged pnoise2 sz r g =
          Inr \<lparr>static_geometry =
                [GeometryHeightmap (Pose None) 0 (fst sz, snd sz, r) 0.1 ?hs None]\<rparr>"
    using Inr by (simp add: mixed_flat_rugged_def)
  have l: "length ?hs = length rugged"
    by (simp add: zero_columns_length imul_length)
  have c: "length (?hs ! row) = length (rugged ! row)
      \<and> (\<forall>col < length (rugged ! row).
            ?hs ! row ! col = (if int col < ?mid then 0.0 else r * rugged ! row ! col))"
    if "row < length rugged" for row
    using that mid
    by (simp add: zero_columns_row_length zero_columns_nth imul_length imul_row_length imul_nth
                  mult.commute)
  from t l c show ?thesis
    unfolding Inr sum.case by blast
qed

theorem mixed_flat_rugged_cells_witness:
  "rugged_heightmap sample_noise (1 / 50, 3 / 100) (2, 3) 1.0
     = Inr [[0, 1 / 25, 2 / 25], [2 / 5, 11 / 25, 12 / 25]]
   \<and> py_int (100 * (1 / 50) * 1) div 2 = 1
   \<and> mixed_flat_rugged sample_noise (1 / 50, 3 / 100) (1 / 2) 1
       = Inr \<lparr>static_geometry =
               [GeometryHeightmap (Pose None) 0 (1 / 50, 3 / 100, 1 / 2) 0.1
                  [[0, 1 / 50, 1 / 25], [0, 11 / 50, 6 / 25]] None]\<rparr>"
  using mixed_flat_rugged_cells [of sample_noise "(1 / 50, 3 / 100)" "1 / 2" 1] sample_rugged
  by (simp add: mixed_flat_rugged_def py_int_def imul_def zero_columns_def slice_stop_def)

section \<open>The crater\<close>

text \<open>
  Claim C6. For weights with \<open>r + c > 0\<close>, the heights of \<open>crater\<close> are, cell by cell,
  \<open>(r * rugged + c * bowl) / (r + c)\<close> for the rugged grid at density 1.5 and the bowl
  grid of the derived resolution; the geometry declares the vertical extent \<open>r + c\<close> and
  the base thickness \<open>0.1 + r\<close>. At \<open>r = c = 1\<close> this is the average of the two grids.
\<close>

theorem crater_weighted_average:
  assumes "0 < r + c"
  shows
  "case rugged_heightmap pnoise2 sz (py_int (100 * fst sz * g), py_int (100 * snd sz * g)) 1.5 of
     Inl e \<Rightarrow> crater pnoise2 sz r c g = Inl e
   | Inr rugged \<Rightarrow>
      (case bowl_heightmap (py_int (100 * fst sz * g), py_int (100 * snd sz * g)) of
         Inl e \<Rightarrow> crater pnoise2 sz r c g = Inl e
       | Inr bowl \<Rightarrow>
          (\<exists>hs. crater pnoise2 sz r c g =
                   Inr \<lparr>static_geometry =
                         [GeometryHeightmap (Pose None) 0 (fst sz, snd sz, r + c) (0.1 + r)
                            hs None]\<rparr>
                \<and> length hs = length rugged
                \<and> (\<forall>row < length rugged.
                      length (hs ! row) = length (rugged ! row)
                      \<and> (\<forall>col < length (rugged ! row).
                            hs ! row ! col =
                              (r * rugged ! row ! col + c * bowl ! row ! col) / (r + c)))))"
proof (cases "rugged_heightmap pnoise2 sz (py_int (100 * fst sz * g), py_int (100 * snd sz * g)) 1.5")
  case (Inl e)
  thus ?thesis by (simp add: crater_def Let_def)
next
  case rg: (Inr rugged)
  show ?thesis
  proof (cases "bowl_heightmap (py_int (100 * fst sz * g), py_int (100 * snd sz * g))")
    case (Inl e)
    thus ?thesis using rg by (simp add: crater_def Let_def)
  next
    case bw: (Inr bowl)
    from assms have "r + c \<noteq> 0" by simp
    from crater_blend [OF rg bw this] show ?thesis
      unfolding rg bw sum.case by blast
  qed
qed

theorem crater_weighted_average_witness:
  "(0::real) < 1 + 1
   \<and> rugged_heightmap sample_noise (1 / 50, 1 / 50) (2, 2) 1.5 = Inr [[0, 3 / 50], [3 / 5, 33 / 50]]
   \<and> bowl_heightmap (2, 2) = Inr [[0, 1], [1, 0]]
   \<and> crater sample_noise (1 / 50, 1 / 50) 1 1 1
       = Inr \<lparr>static_geometry =
               [GeometryHeightmap (Pose None) 0 (1 / 50, 1 / 50, 2) (11 / 10)
                  [[(0 + 0) / 2, (3 / 50 + 1) / 2], [(3 / 5 + 1) / 2, (33 / 50 + 0) / 2]] None]\<rparr>"
  using crater_weighted_average [of 1 1 sample_noise "(1 / 50, 1 / 50)" 1]
    sample_rugged_crater sample_bowl
  by (simp add: crater_def Let_def py_int_def rmul_def add_arrays_def div_array_def)




section \<open>Determinism\<close>



section \<open>The grid resolution of the builders\<close>



section \<open>Static geometry has no mass\<close>

text \<open>
  Claim C10. Every geometry in the terrain a builder returns has mass 0.0: the plane of
  \<open>flat\<close>, and every heightmap of the other five builders.
\<close>

theorem builders_mass_zero:
  "(\<forall>geo \<in> set (static_geometry (flat plane_sz)). mass geo = 0.0)
   \<and> (flat_rugged pnoise2 sz r g = Inr t \<longrightarrow> (\<forall>geo \<in> set (static_geometry t). mass geo = 0.0))
   \<and> (mixed_terrain pnoise2 sz r g = Inr t \<longrightarrow> (\<forall>geo \<in> set (static_geometry t). mass geo = 0.0))
   \<and> (mixed_flat_rugged pnoise2 sz r g = Inr t \<longrightarrow>
        (\<forall>geo \<in> set (static_geometry t). mass geo = 0.0))
   \<and> (mixed_flat_rugged_one_thirds pnoise2 sz r g = Inr t \<longrightarrow>
        (\<forall>geo \<in> set (static_geometry t). mass geo = 0.0))
   \<and> (crater pnoise2 sz r c g = Inr t \<longrightarrow> (\<forall>geo \<in> set (static_geometry t). mass geo = 0.0))"
proof (intro conjI impI)
  show "\<forall>geo \<in> set (static_geometry (flat plane_sz)). mass geo = 0.0"
    by (simp add: flat_def)
next
  assume "flat_rugged pnoise2 sz r g = Inr t"
  from flat_rugged_Inr [OF this] show "\<forall>geo \<in> set (static_geometry t). mass geo = 0.0"
    by auto
next
  assume "mixed_terrain pnoise2 sz r g = Inr t"
  from mixed_terrain_Inr [OF this] show "\<forall>geo \<in> set (static_geometry t). mass geo = 0.0"
    by auto
next
  assume "mixed_flat_rugged pnoise2 sz r g = Inr t"
  from mixed_flat_rugged_Inr [OF this] show "\<forall>geo \<in> set (static_geometry t). mass geo = 0.0"
    by auto
next
  assume "mixed_flat_rugged_one_thirds pnoise2 sz r g = Inr t"
  from mixed_flat_rugged_one_thirds_Inr [OF this]
  show "\<forall>geo \<in> set (static_geometry t). mass geo = 0.0"
    by auto
next
  assume "crater pnoise2 sz r c g = Inr t"
  from crater_Inr [OF this] show "\<forall>geo \<in> set (static_geometry t). mass geo = 0.0"
    by auto
qed

theorem builders_mass_zero_witness:
  "map mass (static_geometry (flat (20, 20))) = [0]
   \<and> (\<exists>t. mixed_terrain sample_noise (1 / 50, 3 / 100) (1 / 2) 1 = Inr t
          \<and> map mass (static_geometry t) = [0, 0, 0])"
  using builders_mass_zero [of "(20, 20)" sample_noise "(1 / 50, 3 / 100)" "1 / 2" 1 _ 0]
    sample_mixed_terrain
  by (simp add: flat_def)

end
